theory Spec2Isabelle
  imports Main "HOL-Library.Sublist" "HOL-Library.AList"
begin

section \<open>JavaScript strings\<close>

text \<open>
  A JavaScript string is a sequence of UTF-16 code units. The model keeps the code units
  \<open>0..255\<close> (one \<^typ>\<open>char\<close> each), which holds every keyword the router looks for. On that
  range \<^verbatim>\<open>String.prototype.toLowerCase\<close> works code unit by code unit: the upper-case
  letters are \<open>A..Z\<close> (65..90) and \<open>U+00C0..U+00DE\<close> without the multiplication sign
  \<open>U+00D7\<close>, and each is mapped to the code unit 32 above it.
\<close>

definition isUpper :: "char \<Rightarrow> bool" where
  "isUpper c =
     (let n = (of_char c :: nat)
      in (65 \<le> n \<and> n \<le> 90) \<or> (192 \<le> n \<and> n \<le> 222 \<and> n \<noteq> 215))"

definition lowerChar :: "char \<Rightarrow> char" where
  "lowerChar c = (if isUpper c then char_of (of_char c + 32 :: nat) else c)"

definition toLowerCase :: "string \<Rightarrow> string" where
  "toLowerCase s = map lowerChar s"

text \<open>\<^verbatim>\<open>s.includes(sub)\<close>: \<open>sub\<close> occurs in \<open>s\<close> as a contiguous run of code units.\<close>

fun str_includes :: "string \<Rightarrow> string \<Rightarrow> bool" where
  "str_includes [] sub = (sub = [])"
| "str_includes (c # s) sub = (prefix sub (c # s) \<or> str_includes s sub)"

text \<open>
  \<^verbatim>\<open>/\d/.test(s)\<close>: without the \<^verbatim>\<open>u\<close> and \<^verbatim>\<open>g\<close> flags \<^verbatim>\<open>\d\<close> is the class \<open>[0-9]\<close> and the
  regular expression keeps no position between calls.
\<close>

definition isDigit :: "char \<Rightarrow> bool" where
  "isDigit c = (let n = (of_char c :: nat) in 48 \<le> n \<and> n \<le> 57)"

definition regex_digit_test :: "string \<Rightarrow> bool" where
  "regex_digit_test s = list_ex isDigit s"

section \<open>Agents, the SDK and observable events\<close>

text \<open>The four \<^verbatim>\<open>Agent\<close> objects of \<^verbatim>\<open>multi-agent-no-tools.js\<close>.\<close>

datatype agent = HistoryExpert | ScienceExpert | MathExpert | Coordinator

text \<open>A string, or \<^verbatim>\<open>undefined\<close>: what reading \<^verbatim>\<open>error.message\<close> gives, and what the tools of
  the collaborative example store and return.\<close>

datatype js_value = Undefined | Str string

text \<open>
  A thrown value. JavaScript lets any value be thrown, and the driver reads
  \<^verbatim>\<open>error.message\<close> of what it catches: \<open>Error m\<close> is a value whose \<^verbatim>\<open>message\<close> is the string
  \<open>m\<close> (an \<^verbatim>\<open>Error\<close> object); \<open>Messageless\<close> is a value whose \<^verbatim>\<open>message\<close> is \<^verbatim>\<open>undefined\<close> (a
  thrown string or number, an object without the property); \<open>Null\<close> is \<^verbatim>\<open>null\<close>, on which reading
  a property throws (\<^verbatim>\<open>undefined\<close> behaves as \<^verbatim>\<open>null\<close> does). A \<^verbatim>\<open>message\<close> that is neither a string
  nor \<^verbatim>\<open>undefined\<close> is not modelled.
\<close>

datatype js_error = Error string | Messageless | Null

text \<open>
  What an agent is run on: a plain string (\<^verbatim>\<open>run(agent, query)\<close>), or one of the objects
  \<^verbatim>\<open>{ topic: query }\<close>, \<^verbatim>\<open>{ field: query }\<close>, \<^verbatim>\<open>{ expression: query }\<close> of the variant with tools.
\<close>

datatype agent_input = Text string | Topic string | Field string | Expression string

text \<open>The object \<^verbatim>\<open>{ query, coordinatorAnalysis, agentResponses }\<close> that \<^verbatim>\<open>processQuery\<close> returns.
  An object's own keys are kept in insertion order, so \<^verbatim>\<open>responses\<close> is an association list.\<close>

datatype 'r query_result =
  QueryResult (result_query: string) (coordinatorAnalysis: 'r) (agentResponses: "(string \<times> 'r) list")

text \<open>One constructor for each \<^verbatim>\<open>console.log\<close> / \<^verbatim>\<open>console.error\<close> call site, with the values
  it interpolates.\<close>

datatype 'r console_line =
    ProcessingQuery string
  | CoordinatorAnalysis 'r
  | SessionStarted
  | AvailableAgents
  | NoToolsNote
  | TypeExitToQuit
  | ResultsHeader
  | ResultJson "'r query_result"
  | Separator
  | ErrorMessage js_value
  | SetupHint
  | SetupExport
  | SetupDotEnv

text \<open>
  What can be observed of a run, in the order it happens: a line printed, the call of an
  agent, and the settling of the promise of that call (fulfilled with a response, \<open>Inr\<close>, or
  rejected with an error, \<open>Inl\<close>).
\<close>

datatype 'r event =
    Print "'r console_line"
  | Invoke agent agent_input
  | Settle agent "js_error + 'r"

text \<open>
  The SDK and the remote model behind it are not part of the repository: they are a
  parameter, any function from the agent, its input and the state of the outside world
  \<open>'w\<close> to an outcome and the next state of the world.
\<close>

type_synonym ('w, 'r) sdk = "agent \<Rightarrow> agent_input \<Rightarrow> 'w \<Rightarrow> (js_error + 'r) \<times> 'w"

text \<open>An \<^verbatim>\<open>async\<close> computation: from the world to the events it emits, its outcome (a thrown
  error or a value) and the world it leaves.\<close>

type_synonym ('w, 'r, 'a) async = "'w \<Rightarrow> 'r event list \<times> (js_error + 'a) \<times> 'w"

definition resolve :: "'a \<Rightarrow> ('w, 'r, 'a) async" where
  "resolve v w = ([], Inr v, w)"

text \<open>\<^verbatim>\<open>const v = await p; k(v)\<close>: the continuation runs once \<open>p\<close> has been fulfilled; a
  rejection of \<open>p\<close> is thrown at the \<^verbatim>\<open>await\<close> and ends the enclosing function.\<close>

definition await :: "('w, 'r, 'a) async \<Rightarrow> ('a \<Rightarrow> ('w, 'r, 'b) async) \<Rightarrow> ('w, 'r, 'b) async" where
  "await p k w =
     (case p w of
        (es, Inl e, w') \<Rightarrow> (es, Inl e, w')
      | (es, Inr v, w') \<Rightarrow> (case k v w' of (es', out, w'') \<Rightarrow> (es @ es', out, w'')))"

text \<open>A statement followed by the rest of the function body.\<close>

definition seq :: "('w, 'r, unit) async \<Rightarrow> ('w, 'r, 'b) async \<Rightarrow> ('w, 'r, 'b) async" where
  "seq p q = await p (\<lambda>_. q)"

definition console_log :: "'r console_line \<Rightarrow> ('w, 'r, unit) async" where
  "console_log line w = ([Print line], Inr (), w)"

text \<open>\<^verbatim>\<open>run(agent, input)\<close> (and \<^verbatim>\<open>agent.run(input)\<close> in the variant with tools).\<close>

definition run :: "('w, 'r) sdk \<Rightarrow> agent \<Rightarrow> agent_input \<Rightarrow> ('w, 'r, 'r) async" where
  "run sdk a i w = (case sdk a i w of (out, w') \<Rightarrow> ([Invoke a i, Settle a out], out, w'))"

section \<open>The keyword router: \<^verbatim>\<open>MultiAgentSystem.processQuery\<close>\<close>

definition analysisPrompt :: "string \<Rightarrow> string" where
  \<open>analysisPrompt query =
     ''Analyze this query and determine which agent(s) should handle it: "'' @ query @ ''"''\<close>

text \<open>\<^verbatim>\<open>multi-agent-no-tools.js\<close>, lines 44 to 80.\<close>

definition processQuery :: "('w, 'r) sdk \<Rightarrow> string \<Rightarrow> ('w, 'r, 'r query_result) async" where
  "processQuery sdk query =
     seq (console_log (ProcessingQuery query))
    (await (run sdk Coordinator (Text (analysisPrompt query))) (\<lambda>coordinatorResponse.
     seq (console_log (CoordinatorAnalysis coordinatorResponse))
    (await
       (if str_includes (toLowerCase query) ''history''
           \<or> str_includes (toLowerCase query) ''historical''
        then await (run sdk HistoryExpert (Text query))
               (\<lambda>r. resolve (AList.update ''history'' r []))
        else resolve []) (\<lambda>responses.
     await
       (if str_includes (toLowerCase query) ''science''
           \<or> str_includes (toLowerCase query) ''scientific''
        then await (run sdk ScienceExpert (Text query))
               (\<lambda>r. resolve (AList.update ''science'' r responses))
        else resolve responses) (\<lambda>responses.
     await
       (if str_includes (toLowerCase query) ''math''
           \<or> str_includes (toLowerCase query) ''calculate''
           \<or> str_includes (toLowerCase query) ''equation''
           \<or> regex_digit_test query
        then await (run sdk MathExpert (Text query))
               (\<lambda>r. resolve (AList.update ''math'' r responses))
        else resolve responses) (\<lambda>responses.
     await
       (if length (map fst responses) = 0
        then await (run sdk Coordinator (Text query))
               (\<lambda>r. resolve (AList.update ''coordinator'' r responses))
        else resolve responses) (\<lambda>responses.
     resolve (QueryResult query coordinatorResponse responses))))))))"

text \<open>The variant with tools (\<^verbatim>\<open>MultiAgentSystem.processQuery\<close>, lines 101 to 137 of its file):
  the same tests, the agents run through \<^verbatim>\<open>this.agents.X.run\<close> on objects.\<close>

definition processQuery_tools :: "('w, 'r) sdk \<Rightarrow> string \<Rightarrow> ('w, 'r, 'r query_result) async" where
  "processQuery_tools sdk query =
     seq (console_log (ProcessingQuery query))
    (await (run sdk Coordinator (Text (analysisPrompt query))) (\<lambda>coordinatorResponse.
     seq (console_log (CoordinatorAnalysis coordinatorResponse))
    (await
       (if str_includes (toLowerCase query) ''history''
           \<or> str_includes (toLowerCase query) ''historical''
        then await (run sdk HistoryExpert (Topic query))
               (\<lambda>r. resolve (AList.update ''history'' r []))
        else resolve []) (\<lambda>responses.
     await
       (if str_includes (toLowerCase query) ''science''
           \<or> str_includes (toLowerCase query) ''scientific''
        then await (run sdk ScienceExpert (Field query))
               (\<lambda>r. resolve (AList.update ''science'' r responses))
        else resolve responses) (\<lambda>responses.
     await
       (if str_includes (toLowerCase query) ''math''
           \<or> str_includes (toLowerCase query) ''calculate''
           \<or> str_includes (toLowerCase query) ''equation''
           \<or> regex_digit_test query
        then await (run sdk MathExpert (Expression query))
               (\<lambda>r. resolve (AList.update ''math'' r responses))
        else resolve responses) (\<lambda>responses.
     await
       (if length (map fst responses) = 0
        then await (run sdk Coordinator (Text query))
               (\<lambda>r. resolve (AList.update ''coordinator'' r responses))
        else resolve responses) (\<lambda>responses.
     resolve (QueryResult query coordinatorResponse responses))))))))"

section \<open>The driver: \<^verbatim>\<open>runInteractiveSession\<close> and \<^verbatim>\<open>main\<close>\<close>

text \<open>\<^verbatim>\<open>for (const x of xs) { await body(x) }\<close>\<close>

fun for_of :: "'a list \<Rightarrow> ('a \<Rightarrow> ('w, 'r, unit) async) \<Rightarrow> ('w, 'r, unit) async" where
  "for_of [] body = resolve ()"
| "for_of (x # xs) body = await (body x) (\<lambda>_. for_of xs body)"

definition exampleQueries :: "string list" where
  "exampleQueries =
     [''Tell me a fun history fact'',
      ''What's an interesting science fact?'',
      ''Explain how to solve a quadratic equation'',
      ''Give me both a history and science fact'']"

definition runInteractiveSession :: "('w, 'r) sdk \<Rightarrow> ('w, 'r, unit) async" where
  "runInteractiveSession sdk =
     seq (console_log SessionStarted)
    (seq (console_log AvailableAgents)
    (seq (console_log NoToolsNote)
    (seq (console_log TypeExitToQuit)
    (for_of exampleQueries (\<lambda>query.
       await (processQuery sdk query) (\<lambda>result.
       seq (console_log ResultsHeader)
      (seq (console_log (ResultJson result))
      (console_log Separator))))))))"

text \<open>\<^verbatim>\<open>try { await p } catch (error) { handler(error) }\<close>\<close>

definition try_catch ::
  "('w, 'r, 'a) async \<Rightarrow> (js_error \<Rightarrow> ('w, 'r, 'a) async) \<Rightarrow> ('w, 'r, 'a) async" where
  "try_catch p handler w =
     (case p w of
        (es, Inr v, w') \<Rightarrow> (es, Inr v, w')
      | (es, Inl error, w') \<Rightarrow>
          (case handler error w' of (es', out, w'') \<Rightarrow> (es @ es', out, w'')))"

text \<open>
  The expression \<^verbatim>\<open>error.message\<close>: a \<^verbatim>\<open>TypeError\<close> on \<^verbatim>\<open>null\<close>, the property otherwise. A
  \<^verbatim>\<open>TypeError\<close> is an \<^verbatim>\<open>Error\<close> object; the messages are those of V8.
\<close>

definition read_message :: "js_error \<Rightarrow> ('w, 'r, js_value) async" where
  "read_message error w =
     (case error of
        Error m \<Rightarrow> ([], Inr (Str m), w)
      | Messageless \<Rightarrow> ([], Inr Undefined, w)
      | Null \<Rightarrow> ([], Inl (Error ''Cannot read properties of null (reading 'message')''), w))"

text \<open>The call \<^verbatim>\<open>msg.includes(sub)\<close> on what \<^verbatim>\<open>error.message\<close> gave: \<^verbatim>\<open>undefined\<close> has no
  properties, so the call throws a \<^verbatim>\<open>TypeError\<close>.\<close>

definition message_includes :: "js_value \<Rightarrow> string \<Rightarrow> ('w, 'r, bool) async" where
  "message_includes msg sub w =
     (case msg of
        Str s \<Rightarrow> ([], Inr (str_includes s sub), w)
      | Undefined \<Rightarrow>
          ([], Inl (Error ''Cannot read properties of undefined (reading 'includes')''), w))"

text \<open>
  \<^verbatim>\<open>main\<close> of \<^verbatim>\<open>multi-agent-no-tools.js\<close>, lines 106 to 118. The constructor of
  \<^verbatim>\<open>MultiAgentSystem\<close> only stores the four agents. What the \<^verbatim>\<open>catch\<close> block throws is thrown
  by \<^verbatim>\<open>main\<close>: the block is not inside a \<^verbatim>\<open>try\<close>, and the call \<^verbatim>\<open>main();\<close> of line 120 has no
  \<^verbatim>\<open>catch\<close> of its own.
\<close>

definition main :: "('w, 'r) sdk \<Rightarrow> ('w, 'r, unit) async" where
  "main sdk =
     try_catch (runInteractiveSession sdk) (\<lambda>error.
       await (read_message error) (\<lambda>msg.
       seq (console_log (ErrorMessage msg))
      (await (read_message error) (\<lambda>msg.
       await (message_includes msg ''OPENAI_API_KEY'') (\<lambda>found.
       if found
       then seq (console_log SetupHint)
           (seq (console_log SetupExport)
           (console_log SetupDotEnv))
       else resolve ())))))"

section \<open>Observations on a run\<close>

definition events_of :: "'e list \<times> 'o \<times> 'w \<Rightarrow> 'e list" where
  "events_of x = fst x"

definition outcome_of :: "'e list \<times> 'o \<times> 'w \<Rightarrow> 'o" where
  "outcome_of x = fst (snd x)"

text \<open>The calls made, in order.\<close>

fun invocations :: "'r event list \<Rightarrow> (agent \<times> agent_input) list" where
  "invocations [] = []"
| "invocations (Invoke a i # es) = (a, i) # invocations es"
| "invocations (e # es) = invocations es"


text \<open>The settling of a call that was rejected.\<close>

fun rejected :: "'r event \<Rightarrow> bool" where
  "rejected (Settle a (Inl e)) = True"
| "rejected e = False"

text \<open>A line that only the \<^verbatim>\<open>catch\<close> block of \<^verbatim>\<open>main\<close> prints.\<close>

fun reports_error :: "'r event \<Rightarrow> bool" where
  "reports_error (Print (ErrorMessage m)) = True"
| "reports_error (Print SetupHint) = True"
| "reports_error (Print SetupExport) = True"
| "reports_error (Print SetupDotEnv) = True"
| "reports_error e = False"

text \<open>
  How a computation made of calls, prints and awaits ends: when it returns, none of its
  calls was rejected; when it throws \<open>e\<close>, its last event is the rejection of a call with
  \<open>e\<close>, and no call before was rejected. In both cases it has printed no error report.
\<close>

definition orderly :: "'r event list \<times> (js_error + 'a) \<times> 'w \<Rightarrow> bool" where
  "orderly x =
     (case x of
        (es, Inr v, w) \<Rightarrow> \<not> list_ex rejected es \<and> \<not> list_ex reports_error es
      | (es, Inl e, w) \<Rightarrow>
          (\<exists>a pre. es = pre @ [Settle a (Inl e)]
             \<and> \<not> list_ex rejected pre \<and> \<not> list_ex reports_error pre))"

text \<open>The three tests of the router, as \<^verbatim>\<open>processQuery\<close> writes them (lines 57, 61 and 65).\<close>

definition mentionsHistory :: "string \<Rightarrow> bool" where
  "mentionsHistory query =
     (str_includes (toLowerCase query) ''history''
      \<or> str_includes (toLowerCase query) ''historical'')"

definition mentionsScience :: "string \<Rightarrow> bool" where
  "mentionsScience query =
     (str_includes (toLowerCase query) ''science''
      \<or> str_includes (toLowerCase query) ''scientific'')"

definition mentionsMath :: "string \<Rightarrow> bool" where
  "mentionsMath query =
     (str_includes (toLowerCase query) ''math''
      \<or> str_includes (toLowerCase query) ''calculate''
      \<or> str_includes (toLowerCase query) ''equation''
      \<or> regex_digit_test query)"

text \<open>Stand-ins for the SDK, to run the model on. In the first two the world counts the
  calls made: the first answers every call with the agent and the number of the call, the
  second rejects every call the way a missing API key does.\<close>

definition echo_sdk :: "(nat, agent \<times> nat) sdk" where
  "echo_sdk a i n = (Inr (a, n), Suc n)"

definition keyless_sdk :: "(nat, agent \<times> nat) sdk" where
  "keyless_sdk a i n = (Inl (Error ''The OPENAI_API_KEY environment variable is missing''), Suc n)"

text \<open>Two that reject every call with a value that is no \<^verbatim>\<open>Error\<close> object: a value without a
  \<^verbatim>\<open>message\<close> (as \<^verbatim>\<open>Promise.reject("quota exceeded")\<close> does), and \<^verbatim>\<open>null\<close>.\<close>

definition messageless_sdk :: "(nat, agent \<times> nat) sdk" where
  "messageless_sdk a i n = (Inl Messageless, Suc n)"

definition null_sdk :: "(nat, agent \<times> nat) sdk" where
  "null_sdk a i n = (Inl Null, Suc n)"

text \<open>One more, of another type: its world has one state and every response is \<open>ok\<close>.\<close>

definition unit_sdk :: "(unit, string) sdk" where
  "unit_sdk a i u = (Inr ''ok'', u)"

text \<open>An SDK none of whose calls is rejected.\<close>

definition never_rejects :: "('w, 'r) sdk \<Rightarrow> bool" where
  "never_rejects sdk = (\<forall>a i w. \<exists>r. fst (sdk a i w) = Inr r)"

section \<open>Shared memory and the two tools\<close>

text \<open>What the tools store and return is a \<^typ>\<open>js_value\<close>: a string, or \<^verbatim>\<open>undefined\<close> (the
  optional \<^verbatim>\<open>value\<close> of a write, the result of \<^verbatim>\<open>Map.prototype.get\<close> on a missing key).\<close>

definition truthy :: "js_value \<Rightarrow> bool" where
  "truthy v = (case v of Undefined \<Rightarrow> False | Str s \<Rightarrow> s \<noteq> [])"

text \<open>\<^verbatim>\<open>a || b\<close>\<close>

definition js_or :: "js_value \<Rightarrow> js_value \<Rightarrow> js_value" where
  "js_or a b = (if truthy a then a else b)"

text \<open>A value interpolated in a template literal.\<close>

definition to_string :: "js_value \<Rightarrow> string" where
  "to_string v = (case v of Undefined \<Rightarrow> ''undefined'' | Str s \<Rightarrow> s)"

record 'm history_entry =
  entry_agent :: string
  entry_message :: 'm
  entry_timestamp :: string

text \<open>
  \<^verbatim>\<open>class SharedMemory\<close>. \<^verbatim>\<open>data\<close> is a \<^verbatim>\<open>Map\<close>: its entries are kept in insertion order,
  \<^verbatim>\<open>Map.prototype.set\<close> replaces the value of the entry that has the key, or adds an entry at
  the end when there is none, which is \<^const>\<open>AList.update\<close>.
\<close>

record 'm sharedMemory =
  data :: "(string \<times> js_value) list"
  conversationHistory :: "'m history_entry list"

definition SharedMemory_new :: "'m sharedMemory" where
  "SharedMemory_new = \<lparr>data = [], conversationHistory = []\<rparr>"

definition SharedMemory_set :: "string \<Rightarrow> js_value \<Rightarrow> 'm sharedMemory \<Rightarrow> 'm sharedMemory" where
  "SharedMemory_set key v m = m\<lparr>data := AList.update key v (data m)\<rparr>"

definition SharedMemory_get :: "string \<Rightarrow> 'm sharedMemory \<Rightarrow> js_value" where
  "SharedMemory_get key m = (case map_of (data m) key of None \<Rightarrow> Undefined | Some v \<Rightarrow> v)"

text \<open>\<open>now\<close> is what \<^verbatim>\<open>new Date().toISOString()\<close> gives at the call.\<close>

definition SharedMemory_addToHistory ::
  "string \<Rightarrow> 'm \<Rightarrow> string \<Rightarrow> 'm sharedMemory \<Rightarrow> 'm sharedMemory" where
  "SharedMemory_addToHistory agent msg now m =
     m\<lparr>conversationHistory := conversationHistory m @
        [\<lparr>entry_agent = agent, entry_message = msg, entry_timestamp = now\<rparr>]\<rparr>"

definition SharedMemory_getHistory :: "'m sharedMemory \<Rightarrow> 'm history_entry list" where
  "SharedMemory_getHistory m = conversationHistory m"

text \<open>A call of one of the four methods, and what it does to the object and returns.\<close>

datatype 'm memory_call =
    Set string js_value
  | Get string
  | AddToHistory string 'm string
  | GetHistory

datatype 'm memory_return = NoValue | Value js_value | History "'m history_entry list"

fun call_method :: "'m memory_call \<Rightarrow> 'm sharedMemory \<Rightarrow> 'm memory_return \<times> 'm sharedMemory" where
  "call_method (Set key v) m = (NoValue, SharedMemory_set key v m)"
| "call_method (Get key) m = (Value (SharedMemory_get key m), m)"
| "call_method (AddToHistory agent msg now) m = (NoValue, SharedMemory_addToHistory agent msg now m)"
| "call_method GetHistory m = (History (SharedMemory_getHistory m), m)"

fun call_methods :: "'m memory_call list \<Rightarrow> 'm sharedMemory \<Rightarrow> 'm sharedMemory" where
  "call_methods [] m = m"
| "call_methods (c # cs) m = call_methods cs (snd (call_method c m))"

text \<open>The entries that a sequence of calls asks to add, in the order of the calls.\<close>

fun added :: "'m memory_call list \<Rightarrow> 'm history_entry list" where
  "added [] = []"
| "added (AddToHistory agent msg now # cs) =
     \<lparr>entry_agent = agent, entry_message = msg, entry_timestamp = now\<rparr> # added cs"
| "added (c # cs) = added cs"

subsection \<open>\<^verbatim>\<open>access_memory\<close>\<close>

text \<open>\<^verbatim>\<open>memoryTool.execute\<close>: the string returned (\<^verbatim>\<open>undefined\<close> when the action is neither
  \<^verbatim>\<open>read\<close> nor \<^verbatim>\<open>write\<close>) and the shared memory after it.\<close>

definition memoryTool_execute ::
  "string \<Rightarrow> string \<Rightarrow> js_value \<Rightarrow> 'm sharedMemory \<Rightarrow> js_value \<times> 'm sharedMemory" where
  \<open>memoryTool_execute action key v sharedMemory =
     (if action = ''read'' then
        (Str (''Memory value for "'' @ key @ ''": ''
              @ to_string (js_or (SharedMemory_get key sharedMemory) (Str ''not found''))),
         sharedMemory)
      else if action = ''write'' then
        (Str (''Stored "'' @ to_string v @ ''" with key "'' @ key @ ''"''),
         SharedMemory_set key v sharedMemory)
      else (Undefined, sharedMemory))\<close>

subsection \<open>\<^verbatim>\<open>communicate_with_agent\<close>\<close>

text \<open>The agents of the collaborative example.\<close>

datatype worker = Researcher | Analyst | Writer | Manager

text \<open>\<^verbatim>\<open>this.agents\<close> of \<^verbatim>\<open>AdvancedMultiAgentSystem\<close> and of \<^verbatim>\<open>AgentCommunicationExample\<close>: the
  own properties of an object literal.\<close>

definition AdvancedMultiAgentSystem_agents :: "(string \<times> worker) list" where
  "AdvancedMultiAgentSystem_agents =
     [(''researcher'', Researcher), (''analyst'', Analyst),
      (''writer'', Writer), (''manager'', Manager)]"

definition AgentCommunicationExample_agents :: "(string \<times> worker) list" where
  "AgentCommunicationExample_agents =
     [(''researcher'', Researcher), (''analyst'', Analyst), (''writer'', Writer)]"

text \<open>
  \<^verbatim>\<open>obj[key]\<close> on an object literal looks the key up among the own properties and then on
  \<^verbatim>\<open>Object.prototype\<close>, whose properties are functions and, for \<^verbatim>\<open>__proto__\<close>, the prototype
  object itself: all of them truthy, none with a \<^verbatim>\<open>run\<close> property.
\<close>

definition objectPrototype_keys :: "string list" where
  "objectPrototype_keys =
     [''constructor'', ''__defineGetter__'', ''__defineSetter__'', ''hasOwnProperty'',
      ''__lookupGetter__'', ''__lookupSetter__'', ''isPrototypeOf'', ''propertyIsEnumerable'',
      ''toString'', ''valueOf'', ''__proto__'', ''toLocaleString'']"

datatype 'a property = Own 'a | Inherited string | Missing

definition get_property :: "(string \<times> 'a) list \<Rightarrow> string \<Rightarrow> 'a property" where
  "get_property obj key =
     (case map_of obj key of
        Some v \<Rightarrow> Own v
      | None \<Rightarrow> if key \<in> set objectPrototype_keys then Inherited key else Missing)"

text \<open>\<^verbatim>\<open>target.run(message)\<close> on an agent is the SDK's.\<close>

type_synonym 'w worker_sdk = "worker \<Rightarrow> string \<Rightarrow> 'w \<Rightarrow> (js_error + string) \<times> 'w"

text \<open>The object \<^verbatim>\<open>{ message, response }\<close> that the tool records (\<open>sent\<close> is its field
  \<^verbatim>\<open>message\<close>).\<close>

record exchange =
  sent :: string
  response :: string

text \<open>
  \<^verbatim>\<open>communicateTool.execute\<close>, on \<^verbatim>\<open>{ targetAgent, message }\<close> and the context
  \<^verbatim>\<open>{ sharedMemory, agentSystem }\<close>: the outcome (the string returned, or the error thrown),
  the shared memory and the world after it. Calling \<^verbatim>\<open>run\<close> on a value that has no such
  property throws a \<^verbatim>\<open>TypeError\<close>.
\<close>

definition communicateTool_execute ::
  "'w worker_sdk \<Rightarrow> string \<Rightarrow> string \<Rightarrow> exchange sharedMemory \<Rightarrow> (string \<times> worker) list \<Rightarrow>
   string \<Rightarrow> 'w \<Rightarrow> (js_error + string) \<times> exchange sharedMemory \<times> 'w" where
  \<open>communicateTool_execute sdk targetAgent msg sharedMemory agents now w =
     (case get_property agents (toLowerCase targetAgent) of
        Missing \<Rightarrow> (Inr (''Error: Agent "'' @ targetAgent @ ''" not found''), sharedMemory, w)
      | Inherited k \<Rightarrow> (Inl (Error ''target.run is not a function''), sharedMemory, w)
      | Own target \<Rightarrow>
          (case sdk target msg w of
             (Inl e, w') \<Rightarrow> (Inl e, sharedMemory, w')
           | (Inr r, w') \<Rightarrow>
               (Inr (''Response from '' @ targetAgent @ '': '' @ r),
                SharedMemory_addToHistory targetAgent \<lparr>sent = msg, response = r\<rparr> now sharedMemory,
                w')))\<close>

section \<open>Evaluation\<close>

text \<open>The equations that compute the string functions on literals, and what the two tests
  of the router mean: \<^verbatim>\<open>includes\<close> is the contiguous-sublist relation, \<^verbatim>\<open>/\d/.test\<close> asks for
  one of the ten digits.\<close>

lemmas string_eval = toLowerCase_def lowerChar_def isUpper_def char_of_def bit_Suc_0_iff
  regex_digit_test_def isDigit_def

lemmas async_defs = await_def seq_def console_log_def resolve_def events_of_def outcome_of_def

lemma str_includes_sublist: "str_includes s sub = sublist sub s"
  by (induction s) (auto simp add: sublist_Cons_right)


section \<open>Runs in which no call is rejected\<close>

lemma run_fulfilled:
  assumes "never_rejects sdk"
  shows "run sdk a i w =
     ([Invoke a i, Settle a (Inr (projr (fst (sdk a i w))))],
      Inr (projr (fst (sdk a i w))), snd (sdk a i w))"
proof -
  from assms obtain r where "fst (sdk a i w) = Inr r"
    unfolding never_rejects_def by blast
  then show ?thesis
    by (cases "sdk a i w") (simp add: run_def)
qed

lemma never_rejects_echo_sdk: "never_rejects echo_sdk"
  by (simp add: never_rejects_def echo_sdk_def)

section \<open>The router\<close>

text \<open>\<^verbatim>\<open>processQuery\<close> with its three tests named.\<close>

lemmas processQuery_tests =
  processQuery_def [folded mentionsHistory_def mentionsScience_def mentionsMath_def]

lemmas processQuery_tools_tests =
  processQuery_tools_def [folded mentionsHistory_def mentionsScience_def mentionsMath_def]

subsection \<open>Which agents are called\<close>



lemma processQuery_fulfilled:
  assumes "never_rejects sdk"
  shows "\<exists>res. outcome_of (processQuery sdk query w) = Inr res \<and> result_query res = query
     \<and> (mentionsHistory query \<longrightarrow>
          Invoke HistoryExpert (Text query) \<in> set (events_of (processQuery sdk query w)))
     \<and> (mentionsScience query \<longrightarrow>
          Invoke ScienceExpert (Text query) \<in> set (events_of (processQuery sdk query w)))
     \<and> (mentionsMath query \<longrightarrow>
          Invoke MathExpert (Text query) \<in> set (events_of (processQuery sdk query w)))
     \<and> (\<forall>r. map_of (agentResponses res) ''history'' = Some r \<longleftrightarrow>
              Settle HistoryExpert (Inr r) \<in> set (events_of (processQuery sdk query w)))
     \<and> (\<forall>r. map_of (agentResponses res) ''science'' = Some r \<longleftrightarrow>
              Settle ScienceExpert (Inr r) \<in> set (events_of (processQuery sdk query w)))
     \<and> (\<forall>r. map_of (agentResponses res) ''math'' = Some r \<longleftrightarrow>
              Settle MathExpert (Inr r) \<in> set (events_of (processQuery sdk query w)))"
  unfolding processQuery_tests
  by (auto simp add: async_defs run_fulfilled[OF assms])

lemma processQuery_tools_fulfilled:
  assumes "never_rejects sdk"
  shows "\<exists>res. outcome_of (processQuery_tools sdk query w) = Inr res \<and> result_query res = query
     \<and> (mentionsHistory query \<longrightarrow>
          Invoke HistoryExpert (Topic query) \<in> set (events_of (processQuery_tools sdk query w)))
     \<and> (mentionsScience query \<longrightarrow>
          Invoke ScienceExpert (Field query) \<in> set (events_of (processQuery_tools sdk query w)))
     \<and> (mentionsMath query \<longrightarrow>
          Invoke MathExpert (Expression query) \<in> set (events_of (processQuery_tools sdk query w)))
     \<and> (\<forall>r. map_of (agentResponses res) ''history'' = Some r \<longleftrightarrow>
              Settle HistoryExpert (Inr r) \<in> set (events_of (processQuery_tools sdk query w)))
     \<and> (\<forall>r. map_of (agentResponses res) ''science'' = Some r \<longleftrightarrow>
              Settle ScienceExpert (Inr r) \<in> set (events_of (processQuery_tools sdk query w)))
     \<and> (\<forall>r. map_of (agentResponses res) ''math'' = Some r \<longleftrightarrow>
              Settle MathExpert (Inr r) \<in> set (events_of (processQuery_tools sdk query w)))"
  unfolding processQuery_tools_tests
  by (auto simp add: async_defs run_fulfilled[OF assms])



text \<open>Runs of the model on concrete queries.\<close>

lemmas run_eval = processQuery_def processQuery_tools_def run_def echo_sdk_def
  keyless_sdk_def await_def seq_def console_log_def resolve_def string_eval

lemma processQuery_example_both:
  "processQuery echo_sdk ''History of Science'' 0 =
     ([Print (ProcessingQuery ''History of Science''),
       Invoke Coordinator (Text (analysisPrompt ''History of Science'')),
       Settle Coordinator (Inr (Coordinator, 0)),
       Print (CoordinatorAnalysis (Coordinator, 0)),
       Invoke HistoryExpert (Text ''History of Science''),
       Settle HistoryExpert (Inr (HistoryExpert, 1)),
       Invoke ScienceExpert (Text ''History of Science''),
       Settle ScienceExpert (Inr (ScienceExpert, 2))],
      Inr (QueryResult ''History of Science'' (Coordinator, 0)
             [(''history'', (HistoryExpert, 1)), (''science'', (ScienceExpert, 2))]),
      3)"
  by (simp add: run_eval)







subsection \<open>The order of the calls\<close>




lemma processQuery_invocations_fulfilled:
  assumes "never_rejects sdk"
  shows "invocations (events_of (processQuery sdk query w)) =
     ((Coordinator, Text (analysisPrompt query))
       # (if mentionsHistory query then [(HistoryExpert, Text query)] else [])
       @ (if mentionsScience query then [(ScienceExpert, Text query)] else [])
       @ (if mentionsMath query then [(MathExpert, Text query)] else [])
       @ (if \<not> mentionsHistory query \<and> \<not> mentionsScience query \<and> \<not> mentionsMath query
          then [(Coordinator, Text query)] else []))"
  unfolding processQuery_tests
  by (auto simp add: async_defs run_fulfilled[OF assms])




subsection \<open>The keys of the result\<close>

lemma processQuery_keys:
  "outcome_of (processQuery sdk query w) = Inr res \<Longrightarrow>
   map fst (agentResponses res) =
      (if mentionsHistory query then [''history''] else [])
       @ (if mentionsScience query then [''science''] else [])
       @ (if mentionsMath query then [''math''] else [])
       @ (if \<not> mentionsHistory query \<and> \<not> mentionsScience query \<and> \<not> mentionsMath query
          then [''coordinator''] else [])"
  unfolding processQuery_tests
  by (auto simp add: async_defs run_def split: prod.splits sum.splits if_splits)

lemma processQuery_tools_keys:
  "outcome_of (processQuery_tools sdk query w) = Inr res \<Longrightarrow>
   map fst (agentResponses res) =
      (if mentionsHistory query then [''history''] else [])
       @ (if mentionsScience query then [''science''] else [])
       @ (if mentionsMath query then [''math''] else [])
       @ (if \<not> mentionsHistory query \<and> \<not> mentionsScience query \<and> \<not> mentionsMath query
          then [''coordinator''] else [])"
  unfolding processQuery_tools_tests
  by (auto simp add: async_defs run_def split: prod.splits sum.splits if_splits)

lemma processQuery_returns:
  assumes "never_rejects sdk"
  shows "\<exists>res. outcome_of (processQuery sdk query w) = Inr res"
  using processQuery_fulfilled[OF assms, of query w] by blast

lemma processQuery_tools_returns:
  assumes "never_rejects sdk"
  shows "\<exists>res. outcome_of (processQuery_tools sdk query w) = Inr res"
  using processQuery_tools_fulfilled[OF assms, of query w] by blast

text \<open>
  Claim C7. The keys of \<^verbatim>\<open>agentResponses\<close> (the buckets of the query) are a function of the
  query alone: \<open>history\<close>, \<open>science\<close> and \<open>math\<close> for the tests that hold, in this order, and
  \<open>coordinator\<close> when none holds. Two runs on the same query, with any two SDKs (even of
  different response types) from any two states of the world, return objects with the same
  keys, and when no call is rejected they make the same calls; a run in which no call is
  rejected does return.
\<close>

theorem processQuery_buckets_deterministic:
  "(outcome_of (processQuery sdk1 query w1) = Inr res1 \<longrightarrow>
      map fst (agentResponses res1) =
        (if mentionsHistory query then [''history''] else [])
         @ (if mentionsScience query then [''science''] else [])
         @ (if mentionsMath query then [''math''] else [])
         @ (if \<not> mentionsHistory query \<and> \<not> mentionsScience query \<and> \<not> mentionsMath query
            then [''coordinator''] else []))
   \<and> (outcome_of (processQuery sdk1 query w1) = Inr res1
        \<and> outcome_of (processQuery sdk2 query w2) = Inr res2 \<longrightarrow>
      map fst (agentResponses res1) = map fst (agentResponses res2))
   \<and> (never_rejects sdk1 \<and> never_rejects sdk2 \<longrightarrow>
      invocations (events_of (processQuery sdk1 query w1)) =
        invocations (events_of (processQuery sdk2 query w2)))
   \<and> (never_rejects sdk1 \<longrightarrow> (\<exists>res. outcome_of (processQuery sdk1 query w1) = Inr res))"
proof (intro conjI impI)
  assume "outcome_of (processQuery sdk1 query w1) = Inr res1"
  then show "map fst (agentResponses res1) =
        (if mentionsHistory query then [''history''] else [])
         @ (if mentionsScience query then [''science''] else [])
         @ (if mentionsMath query then [''math''] else [])
         @ (if \<not> mentionsHistory query \<and> \<not> mentionsScience query \<and> \<not> mentionsMath query
            then [''coordinator''] else [])"
    by (rule processQuery_keys)
next
  assume "outcome_of (processQuery sdk1 query w1) = Inr res1
        \<and> outcome_of (processQuery sdk2 query w2) = Inr res2"
  then show "map fst (agentResponses res1) = map fst (agentResponses res2)"
    by (simp only: processQuery_keys[of sdk1 query w1 res1] processQuery_keys[of sdk2 query w2 res2])
next
  assume "never_rejects sdk1 \<and> never_rejects sdk2"
  then show "invocations (events_of (processQuery sdk1 query w1)) =
        invocations (events_of (processQuery sdk2 query w2))"
    by (simp only: processQuery_invocations_fulfilled)
next
  assume "never_rejects sdk1"
  then show "\<exists>res. outcome_of (processQuery sdk1 query w1) = Inr res"
    by (rule processQuery_returns)
qed

lemma processQuery_example_both_unit:
  "outcome_of (processQuery unit_sdk ''History of Science'' ()) =
     Inr (QueryResult ''History of Science'' ''ok'' [(''history'', ''ok''), (''science'', ''ok'')])"
  by (simp add: unit_sdk_def outcome_of_def run_eval)

lemma never_rejects_unit_sdk: "never_rejects unit_sdk"
  by (simp add: never_rejects_def unit_sdk_def)

text \<open>The query \<open>History of Science\<close>, answered by two SDKs of different types.\<close>

theorem processQuery_buckets_deterministic_witness:
  "never_rejects echo_sdk \<and> never_rejects unit_sdk
   \<and> outcome_of (processQuery echo_sdk ''History of Science'' 0) =
       Inr (QueryResult ''History of Science'' (Coordinator, 0)
             [(''history'', (HistoryExpert, 1)), (''science'', (ScienceExpert, 2))])
   \<and> outcome_of (processQuery unit_sdk ''History of Science'' ()) =
       Inr (QueryResult ''History of Science'' ''ok'' [(''history'', ''ok''), (''science'', ''ok'')])
   \<and> map fst [(''history'', (HistoryExpert, 1::nat)), (''science'', (ScienceExpert, 2))] =
       map fst [(''history'', ''ok''), (''science'', ''ok'')]
   \<and> invocations (events_of (processQuery echo_sdk ''History of Science'' 0)) =
       invocations (events_of (processQuery unit_sdk ''History of Science'' ()))"
proof -
  have echo: "outcome_of (processQuery echo_sdk ''History of Science'' 0) =
       Inr (QueryResult ''History of Science'' (Coordinator, 0)
             [(''history'', (HistoryExpert, 1)), (''science'', (ScienceExpert, 2))])"
    by (simp add: processQuery_example_both outcome_of_def)
  from processQuery_buckets_deterministic
    [where ?sdk1.0 = echo_sdk and ?sdk2.0 = unit_sdk and query = "''History of Science''"
       and ?w1.0 = 0 and ?w2.0 = "()"
       and ?res1.0 = "QueryResult ''History of Science'' (Coordinator, 0)
             [(''history'', (HistoryExpert, 1)), (''science'', (ScienceExpert, 2))]"
       and ?res2.0 = "QueryResult ''History of Science'' ''ok''
             [(''history'', ''ok''), (''science'', ''ok'')]"]
  show ?thesis
    by (simp add: never_rejects_echo_sdk never_rejects_unit_sdk echo
        processQuery_example_both_unit)
qed

lemma processQuery_fallback:
  "outcome_of (processQuery sdk query w) = Inr res \<Longrightarrow>
   \<not> mentionsHistory query \<Longrightarrow> \<not> mentionsScience query \<Longrightarrow> \<not> mentionsMath query \<Longrightarrow>
   \<exists>r pre. agentResponses res = [(''coordinator'', r)] \<and>
     events_of (processQuery sdk query w) =
       pre @ [Invoke Coordinator (Text query), Settle Coordinator (Inr r)]"
  unfolding processQuery_tests
  by (auto simp add: async_defs run_def split: prod.splits sum.splits if_splits)

lemma processQuery_tools_fallback:
  "outcome_of (processQuery_tools sdk query w) = Inr res \<Longrightarrow>
   \<not> mentionsHistory query \<Longrightarrow> \<not> mentionsScience query \<Longrightarrow> \<not> mentionsMath query \<Longrightarrow>
   \<exists>r pre. agentResponses res = [(''coordinator'', r)] \<and>
     events_of (processQuery_tools sdk query w) =
       pre @ [Invoke Coordinator (Text query), Settle Coordinator (Inr r)]"
  unfolding processQuery_tools_tests
  by (auto simp add: async_defs run_def split: prod.splits sum.splits if_splits)

lemma keys_nonempty:
  assumes "map fst (responses :: (string \<times> 'r) list) =
      (if h then [''history''] else [])
       @ (if s then [''science''] else [])
       @ (if m then [''math''] else [])
       @ (if \<not> h \<and> \<not> s \<and> \<not> m then [''coordinator''] else [])"
  shows "responses \<noteq> []"
    and "''coordinator'' \<in> set (map fst responses) \<longleftrightarrow> \<not> h \<and> \<not> s \<and> \<not> m"
  using assms by (auto split: if_splits)

text \<open>
  Claim C8. The \<^verbatim>\<open>agentResponses\<close> of an object that \<^verbatim>\<open>processQuery\<close> returns is never empty. It
  has the key \<open>coordinator\<close> exactly when none of the three tests holds; then it is the one
  entry, and its value is the response of the last call of the run, the coordinator on the
  raw query. When no call is rejected, \<^verbatim>\<open>processQuery\<close> does return such an object. The same
  holds of the variant with tools.
\<close>

theorem processQuery_responses_nonempty:
  "(outcome_of (processQuery sdk query w) = Inr res \<longrightarrow>
      agentResponses res \<noteq> []
      \<and> (''coordinator'' \<in> set (map fst (agentResponses res)) \<longleftrightarrow>
           \<not> mentionsHistory query \<and> \<not> mentionsScience query \<and> \<not> mentionsMath query)
      \<and> (\<not> mentionsHistory query \<and> \<not> mentionsScience query \<and> \<not> mentionsMath query \<longrightarrow>
           (\<exists>r pre. agentResponses res = [(''coordinator'', r)]
              \<and> events_of (processQuery sdk query w) =
                  pre @ [Invoke Coordinator (Text query), Settle Coordinator (Inr r)])))
   \<and> (never_rejects sdk \<longrightarrow>
        (\<exists>res'. outcome_of (processQuery sdk query w) = Inr res' \<and> agentResponses res' \<noteq> []))
   \<and> (outcome_of (processQuery_tools sdk query w) = Inr res \<longrightarrow>
      agentResponses res \<noteq> []
      \<and> (''coordinator'' \<in> set (map fst (agentResponses res)) \<longleftrightarrow>
           \<not> mentionsHistory query \<and> \<not> mentionsScience query \<and> \<not> mentionsMath query)
      \<and> (\<not> mentionsHistory query \<and> \<not> mentionsScience query \<and> \<not> mentionsMath query \<longrightarrow>
           (\<exists>r pre. agentResponses res = [(''coordinator'', r)]
              \<and> events_of (processQuery_tools sdk query w) =
                  pre @ [Invoke Coordinator (Text query), Settle Coordinator (Inr r)])))
   \<and> (never_rejects sdk \<longrightarrow>
        (\<exists>res'. outcome_of (processQuery_tools sdk query w) = Inr res'
           \<and> agentResponses res' \<noteq> []))"
proof -
  have a: "agentResponses r \<noteq> []
      \<and> (''coordinator'' \<in> set (map fst (agentResponses r)) \<longleftrightarrow>
           \<not> mentionsHistory query \<and> \<not> mentionsScience query \<and> \<not> mentionsMath query)"
    if "outcome_of (processQuery sdk query w) = Inr r" for r
    using keys_nonempty[OF processQuery_keys[OF that]] by simp
  have b: "agentResponses r \<noteq> []
      \<and> (''coordinator'' \<in> set (map fst (agentResponses r)) \<longleftrightarrow>
           \<not> mentionsHistory query \<and> \<not> mentionsScience query \<and> \<not> mentionsMath query)"
    if "outcome_of (processQuery_tools sdk query w) = Inr r" for r
    using keys_nonempty[OF processQuery_tools_keys[OF that]] by simp
  have c: "\<exists>res'. outcome_of (processQuery sdk query w) = Inr res' \<and> agentResponses res' \<noteq> []"
    if "never_rejects sdk"
    using processQuery_returns[OF that, of query w] a by blast
  have d: "\<exists>res'. outcome_of (processQuery_tools sdk query w) = Inr res' \<and> agentResponses res' \<noteq> []"
    if "never_rejects sdk"
    using processQuery_tools_returns[OF that, of query w] b by blast
  show ?thesis
    using a[of res] b[of res] c d processQuery_fallback[of sdk query w res]
      processQuery_tools_fallback[of sdk query w res]
    by blast
qed

lemma processQuery_example_fallback:
  "processQuery echo_sdk ''Hello'' 0 =
     ([Print (ProcessingQuery ''Hello''),
       Invoke Coordinator (Text (analysisPrompt ''Hello'')),
       Settle Coordinator (Inr (Coordinator, 0)),
       Print (CoordinatorAnalysis (Coordinator, 0)),
       Invoke Coordinator (Text ''Hello''),
       Settle Coordinator (Inr (Coordinator, 1))],
      Inr (QueryResult ''Hello'' (Coordinator, 0) [(''coordinator'', (Coordinator, 1))]),
      2)"
  by (simp add: run_eval)

lemma processQuery_tools_example_fallback:
  "processQuery_tools echo_sdk ''Hello'' 0 =
     ([Print (ProcessingQuery ''Hello''),
       Invoke Coordinator (Text (analysisPrompt ''Hello'')),
       Settle Coordinator (Inr (Coordinator, 0)),
       Print (CoordinatorAnalysis (Coordinator, 0)),
       Invoke Coordinator (Text ''Hello''),
       Settle Coordinator (Inr (Coordinator, 1))],
      Inr (QueryResult ''Hello'' (Coordinator, 0) [(''coordinator'', (Coordinator, 1))]),
      2)"
  by (simp add: run_eval)

lemma mentions_example_fallback:
  "\<not> mentionsHistory ''Hello''" "\<not> mentionsScience ''Hello''" "\<not> mentionsMath ''Hello''"
  by (simp_all add: mentionsHistory_def mentionsScience_def mentionsMath_def string_eval)

text \<open>The query \<open>Hello\<close> passes none of the tests.\<close>

theorem processQuery_responses_nonempty_witness:
  "never_rejects echo_sdk
   \<and> \<not> mentionsHistory ''Hello'' \<and> \<not> mentionsScience ''Hello'' \<and> \<not> mentionsMath ''Hello''
   \<and> outcome_of (processQuery echo_sdk ''Hello'' 0) =
       Inr (QueryResult ''Hello'' (Coordinator, 0) [(''coordinator'', (Coordinator, 1))])
   \<and> outcome_of (processQuery_tools echo_sdk ''Hello'' 0) =
       Inr (QueryResult ''Hello'' (Coordinator, 0) [(''coordinator'', (Coordinator, 1))])
   \<and> (\<exists>pre. events_of (processQuery echo_sdk ''Hello'' 0) =
         pre @ [Invoke Coordinator (Text ''Hello''), Settle Coordinator (Inr (Coordinator, 1))])"
proof -
  have echo: "outcome_of (processQuery echo_sdk ''Hello'' 0) =
       Inr (QueryResult ''Hello'' (Coordinator, 0) [(''coordinator'', (Coordinator, 1))])"
    "outcome_of (processQuery_tools echo_sdk ''Hello'' 0) =
       Inr (QueryResult ''Hello'' (Coordinator, 0) [(''coordinator'', (Coordinator, 1))])"
    by (simp_all add: processQuery_example_fallback processQuery_tools_example_fallback
        outcome_of_def)
  from processQuery_responses_nonempty
    [where sdk = echo_sdk and query = "''Hello''" and w = 0
       and res = "QueryResult ''Hello'' (Coordinator, 0) [(''coordinator'', (Coordinator, 1))]"]
  show ?thesis
    by (simp add: never_rejects_echo_sdk echo mentions_example_fallback)
qed

section \<open>The driver\<close>

text \<open>Every computation built from calls, prints, awaits, branches and loops is orderly.\<close>

lemma orderly_resolve: "orderly (resolve v w)"
  by (simp add: orderly_def resolve_def)

lemma orderly_console_log: "\<not> reports_error (Print l) \<Longrightarrow> orderly (console_log l w)"
  by (simp add: orderly_def console_log_def)

lemma orderly_run: "orderly (run sdk a i w)"
  by (cases "sdk a i w") (auto simp add: orderly_def run_def split: sum.splits)

lemma orderly_await:
  assumes p: "orderly (p w)" and k: "\<And>v w'. orderly (k v w')"
  shows "orderly (await p k w)"
proof (cases "p w")
  case (fields es out w')
  show ?thesis
  proof (cases out)
    case (Inl e)
    with fields p show ?thesis by (simp add: await_def orderly_def)
  next
    case (Inr v)
    obtain es' out' w'' where kv: "k v w' = (es', out', w'')"
      by (cases "k v w'") 
    from k[of v w'] kv have "orderly (es', out', w'')" by simp
    moreover from p fields Inr have "\<not> list_ex rejected es \<and> \<not> list_ex reports_error es"
      by (simp add: orderly_def)
    ultimately show ?thesis using fields Inr kv
      by (cases out') (auto simp add: await_def orderly_def)
  qed
qed

lemma orderly_seq:
  "orderly (p w) \<Longrightarrow> (\<And>w'. orderly (q w')) \<Longrightarrow> orderly (seq p q w)"
  unfolding seq_def by (rule orderly_await)

lemma orderly_for_of:
  assumes "\<And>x w'. orderly (body x w')"
  shows "orderly (for_of xs body w)"
proof (induction xs arbitrary: w)
  case Nil
  show ?case by (simp add: orderly_resolve)
next
  case (Cons x xs)
  show ?case by (simp, rule orderly_await) (rule assms, rule Cons.IH)
qed

lemma orderly_if:
  "orderly (p w) \<Longrightarrow> orderly (q w) \<Longrightarrow> orderly ((if c then p else q) w)"
  by simp

lemmas orderly_intros =
  orderly_seq orderly_await orderly_if orderly_console_log orderly_run orderly_resolve

lemma orderly_processQuery: "orderly (processQuery sdk query w)"
  unfolding processQuery_def
  by (intro orderly_intros; simp)

lemma orderly_runInteractiveSession: "orderly (runInteractiveSession sdk w)"
  unfolding runInteractiveSession_def
  by (intro orderly_intros orderly_for_of orderly_processQuery; simp)

lemma main_cases:
  "(\<exists>es w'. runInteractiveSession sdk w = (es, Inr (), w') \<and> main sdk w = (es, Inr (), w')
      \<and> \<not> list_ex rejected es \<and> \<not> list_ex reports_error es)
   \<or> (\<exists>pre a m w'. runInteractiveSession sdk w = (pre @ [Settle a (Inl (Error m))], Inl (Error m), w')
      \<and> \<not> list_ex rejected pre \<and> \<not> list_ex reports_error pre
      \<and> main sdk w =
          (pre @ [Settle a (Inl (Error m)), Print (ErrorMessage (Str m))]
             @ (if str_includes m ''OPENAI_API_KEY''
                then [Print SetupHint, Print SetupExport, Print SetupDotEnv] else []),
           Inr (), w'))
   \<or> (\<exists>pre a w'. runInteractiveSession sdk w = (pre @ [Settle a (Inl Messageless)], Inl Messageless, w')
      \<and> \<not> list_ex rejected pre \<and> \<not> list_ex reports_error pre
      \<and> main sdk w =
          (pre @ [Settle a (Inl Messageless), Print (ErrorMessage Undefined)],
           Inl (Error ''Cannot read properties of undefined (reading 'includes')''), w'))
   \<or> (\<exists>pre a w'. runInteractiveSession sdk w = (pre @ [Settle a (Inl Null)], Inl Null, w')
      \<and> \<not> list_ex rejected pre \<and> \<not> list_ex reports_error pre
      \<and> main sdk w =
          (pre @ [Settle a (Inl Null)],
           Inl (Error ''Cannot read properties of null (reading 'message')''), w'))"
proof (cases "runInteractiveSession sdk w")
  case (fields es out w')
  with orderly_runInteractiveSession[of sdk w] have ord: "orderly (es, out, w')" by simp
  show ?thesis
  proof (cases out)
    case (Inr u)
    with ord fields show ?thesis
      by (simp add: orderly_def main_def try_catch_def)
  next
    case (Inl e)
    with ord obtain a pre where "es = pre @ [Settle a (Inl e)]"
      "\<not> list_ex rejected pre" "\<not> list_ex reports_error pre"
      by (auto simp add: orderly_def)
    with fields Inl show ?thesis
      by (cases e)
         (simp_all add: main_def try_catch_def seq_def await_def console_log_def resolve_def
            read_message_def message_includes_def)
  qed
qed

text \<open>
  What \<^verbatim>\<open>main\<close> does with a rejected call. Its promise is fulfilled exactly when every
  rejection of the run is with a value that has a string \<^verbatim>\<open>message\<close>. After a rejection with
  the message \<open>m\<close> the events end with the printing of \<open>m\<close> and, exactly if \<open>m\<close> contains
  \<open>OPENAI_API_KEY\<close>, the three lines of setup instructions, which are printed in no other
  case. Whatever the value, no call is made from the first rejection on.
\<close>

lemma main_reports_errors:
  "(outcome_of (main sdk w) = Inr () \<longleftrightarrow>
      (\<forall>a e. Settle a (Inl e) \<in> set (events_of (main sdk w)) \<longrightarrow> (\<exists>m. e = Error m)))
   \<and> (\<forall>a m. Settle a (Inl (Error m)) \<in> set (events_of (main sdk w)) \<longrightarrow>
         (\<exists>pre. \<not> list_ex rejected pre \<and> \<not> list_ex reports_error pre
            \<and> events_of (main sdk w) =
                pre @ [Settle a (Inl (Error m)), Print (ErrorMessage (Str m))]
                  @ (if str_includes m ''OPENAI_API_KEY''
                     then [Print SetupHint, Print SetupExport, Print SetupDotEnv] else [])))
   \<and> (Print SetupHint \<in> set (events_of (main sdk w)) \<longleftrightarrow>
        (\<exists>a m. Settle a (Inl (Error m)) \<in> set (events_of (main sdk w))
           \<and> str_includes m ''OPENAI_API_KEY''))
   \<and> invocations (dropWhile (\<lambda>x. \<not> rejected x) (events_of (main sdk w))) = []"
  using main_cases[of sdk w]
  by (elim disjE exE conjE)
     (auto simp add: events_of_def outcome_of_def list_ex_iff dropWhile_eq_Nil_conv[THEN iffD2])

lemma main_example_keyless:
  "main keyless_sdk 0 =
     ([Print SessionStarted, Print AvailableAgents, Print NoToolsNote, Print TypeExitToQuit,
       Print (ProcessingQuery ''Tell me a fun history fact''),
       Invoke Coordinator (Text (analysisPrompt ''Tell me a fun history fact'')),
       Settle Coordinator
         (Inl (Error ''The OPENAI_API_KEY environment variable is missing'')),
       Print (ErrorMessage (Str ''The OPENAI_API_KEY environment variable is missing'')),
       Print SetupHint, Print SetupExport, Print SetupDotEnv],
      Inr (), 1)"
  by (simp add: main_def try_catch_def runInteractiveSession_def exampleQueries_def
      read_message_def message_includes_def run_eval)

text \<open>
  Claim C6, at an SDK that rejects with a value that has no \<^verbatim>\<open>message\<close>, and at one that
  rejects with \<^verbatim>\<open>null\<close>. In the first case the \<^verbatim>\<open>catch\<close> block prints \<^verbatim>\<open>undefined\<close> and then throws
  on \<^verbatim>\<open>error.message.includes\<close>; in the second it throws on \<^verbatim>\<open>error.message\<close> and prints
  nothing. In both the promise of \<^verbatim>\<open>main\<close> is rejected: the error is propagated, and in the
  second it is not printed. No call is made again.
\<close>

theorem main_propagates_messageless_rejection:
  "main messageless_sdk 0 =
     ([Print SessionStarted, Print AvailableAgents, Print NoToolsNote, Print TypeExitToQuit,
       Print (ProcessingQuery ''Tell me a fun history fact''),
       Invoke Coordinator (Text (analysisPrompt ''Tell me a fun history fact'')),
       Settle Coordinator (Inl Messageless),
       Print (ErrorMessage Undefined)],
      Inl (Error ''Cannot read properties of undefined (reading 'includes')''), 1)
   \<and> main null_sdk 0 =
     ([Print SessionStarted, Print AvailableAgents, Print NoToolsNote, Print TypeExitToQuit,
       Print (ProcessingQuery ''Tell me a fun history fact''),
       Invoke Coordinator (Text (analysisPrompt ''Tell me a fun history fact'')),
       Settle Coordinator (Inl Null)],
      Inl (Error ''Cannot read properties of null (reading 'message')''), 1)
   \<and> outcome_of (main messageless_sdk 0) \<noteq> Inr ()
   \<and> outcome_of (main null_sdk 0) \<noteq> Inr ()"
  by (simp add: main_def try_catch_def runInteractiveSession_def exampleQueries_def
      read_message_def message_includes_def messageless_sdk_def null_sdk_def outcome_of_def
      run_eval)

section \<open>Shared memory\<close>

lemma history_call_method:
  "conversationHistory (snd (call_method c m)) = conversationHistory m @ added [c]"
  by (cases c) (simp_all add: SharedMemory_set_def SharedMemory_addToHistory_def)

lemma added_Cons: "added (c # cs) = added [c] @ added cs"
  by (cases c) simp_all

lemma history_call_methods:
  "conversationHistory (call_methods cs m) = conversationHistory m @ added cs"
proof (induction cs arbitrary: m)
  case Nil
  show ?case by simp
next
  case (Cons c cs)
  have "conversationHistory (call_methods (c # cs) m)
          = conversationHistory (snd (call_method c m)) @ added cs"
    by (simp add: Cons.IH)
  also have "\<dots> = conversationHistory m @ added [c] @ added cs"
    by (simp add: history_call_method)
  finally show ?case by (simp add: added_Cons[of c cs])
qed

text \<open>
  Claim C4. \<^verbatim>\<open>set\<close> leaves \<^verbatim>\<open>conversationHistory\<close> as it is (\<^verbatim>\<open>get\<close> and \<^verbatim>\<open>getHistory\<close> only
  read), \<^verbatim>\<open>addToHistory\<close> adds its entry at the end, so each call of a method adds at most
  one entry at the end, and after any sequence of calls the history is the history before
  followed by the entries of the \<^verbatim>\<open>addToHistory\<close> calls, in the order of the calls;
  \<^verbatim>\<open>getHistory\<close> returns all of it.
\<close>

theorem conversationHistory_append_only:
  "conversationHistory (SharedMemory_set key v m) = conversationHistory m
   \<and> conversationHistory (SharedMemory_addToHistory agent msg now m) =
       conversationHistory m @ [\<lparr>entry_agent = agent, entry_message = msg, entry_timestamp = now\<rparr>]
   \<and> (\<forall>c. length (added [c]) \<le> 1
          \<and> conversationHistory (snd (call_method c m)) = conversationHistory m @ added [c])
   \<and> conversationHistory (call_methods cs m) = conversationHistory m @ added cs
   \<and> SharedMemory_getHistory (call_methods cs SharedMemory_new) = added cs
   \<and> fst (call_method GetHistory (call_methods cs m)) = History (conversationHistory m @ added cs)"
proof -
  have "length (added [c]) \<le> 1" for c :: "'a memory_call"
    by (cases c) simp_all
  then show ?thesis
    by (simp add: history_call_methods history_call_method SharedMemory_getHistory_def
        SharedMemory_new_def SharedMemory_set_def SharedMemory_addToHistory_def)
qed

text \<open>Two calls of \<^verbatim>\<open>addToHistory\<close> around a \<^verbatim>\<open>set\<close>, a \<^verbatim>\<open>get\<close> and a \<^verbatim>\<open>getHistory\<close>.\<close>

theorem conversationHistory_append_only_witness:
  "SharedMemory_getHistory
     (call_methods
        [AddToHistory ''Writer'' ''first'' ''t1'', Set ''k'' (Str ''v''), Get ''k'', GetHistory,
         AddToHistory ''Analyst'' ''second'' ''t2'']
        SharedMemory_new) =
     [\<lparr>entry_agent = ''Writer'', entry_message = ''first'', entry_timestamp = ''t1''\<rparr>,
      \<lparr>entry_agent = ''Analyst'', entry_message = ''second'', entry_timestamp = ''t2''\<rparr>]"
  using conversationHistory_append_only
    [where cs = "[AddToHistory ''Writer'' ''first'' ''t1'', Set ''k'' (Str ''v''), Get ''k'',
        GetHistory, AddToHistory ''Analyst'' ''second'' ''t2'']"
       and m = SharedMemory_new and key = "''k''" and v = "Str ''v''"
       and agent = "''Writer''" and msg = "''first''" and now = "''t1''"]
  by (simp add: SharedMemory_getHistory_def SharedMemory_addToHistory_def SharedMemory_set_def
      SharedMemory_new_def)

lemma distinct_call_method:
  "distinct (map fst (data m)) \<Longrightarrow> distinct (map fst (data (snd (call_method c m))))"
  by (cases c) (simp_all add: SharedMemory_set_def SharedMemory_addToHistory_def distinct_update)

lemma distinct_call_methods:
  "distinct (map fst (data m)) \<Longrightarrow> distinct (map fst (data (call_methods cs m)))"
  by (induction cs arbitrary: m) (simp_all add: distinct_call_method)

lemma update_absent:
  "key \<notin> fst ` set al \<Longrightarrow> AList.update key v al = al @ [(key, v)]"
  by (induction al) auto

lemma update_present:
  "key \<in> fst ` set al \<Longrightarrow> map fst (AList.update key v al) = map fst al"
  by (induction al) auto

text \<open>
  Claim C5. \<^verbatim>\<open>get(k)\<close> after \<^verbatim>\<open>set(k, v)\<close> is \<open>v\<close>, and the other keys keep their values.
  \<^verbatim>\<open>set\<close> on a key that is present changes no key of the map, so it adds no entry; on a
  key that is absent it adds one entry at the end. Keys that are distinct stay distinct, and
  they are distinct after any sequence of calls on a new \<^verbatim>\<open>SharedMemory\<close>.
\<close>

theorem SharedMemory_set_get:
  "SharedMemory_get key (SharedMemory_set key v m) = v
   \<and> (key' \<noteq> key \<longrightarrow> SharedMemory_get key' (SharedMemory_set key v m) = SharedMemory_get key' m)
   \<and> (key \<in> fst ` set (data m) \<longrightarrow>
        map fst (data (SharedMemory_set key v m)) = map fst (data m))
   \<and> (key \<notin> fst ` set (data m) \<longrightarrow>
        data (SharedMemory_set key v m) = data m @ [(key, v)])
   \<and> (distinct (map fst (data m)) \<longrightarrow> distinct (map fst (data (SharedMemory_set key v m))))
   \<and> distinct (map fst (data (call_methods cs SharedMemory_new)))"
proof -
  have "distinct (map fst (data (call_methods cs SharedMemory_new)))"
    by (rule distinct_call_methods) (simp add: SharedMemory_new_def)
  then show ?thesis
    by (simp add: SharedMemory_get_def SharedMemory_set_def update_conv' distinct_update
        update_present update_absent)
qed

text \<open>Setting the key \<open>k\<close> twice leaves one entry, with the second value.\<close>

theorem SharedMemory_set_get_witness:
  "''k'' \<in> fst ` set (data (SharedMemory_set ''k'' (Str ''old'')
            (SharedMemory_new :: unit sharedMemory)))
   \<and> distinct (map fst (data (SharedMemory_set ''k'' (Str ''old'') SharedMemory_new)))
   \<and> ''j'' \<noteq> ''k''
   \<and> SharedMemory_get ''k''
        (SharedMemory_set ''k'' (Str ''new'') (SharedMemory_set ''k'' (Str ''old'') SharedMemory_new))
       = Str ''new''
   \<and> map fst (data (SharedMemory_set ''k'' (Str ''new'')
          (SharedMemory_set ''k'' (Str ''old'') SharedMemory_new))) = [''k'']
   \<and> data (SharedMemory_set ''j'' Undefined (SharedMemory_set ''k'' (Str ''old'') SharedMemory_new))
       = [(''k'', Str ''old''), (''j'', Undefined)]"
  using SharedMemory_set_get
    [where key = "''k''" and key' = "''j''" and v = "Str ''new''" and cs = "[]"
       and m = "SharedMemory_set ''k'' (Str ''old'') SharedMemory_new"]
    SharedMemory_set_get
    [where key = "''j''" and key' = "''k''" and v = Undefined and cs = "[]"
       and m = "SharedMemory_set ''k'' (Str ''old'') SharedMemory_new"]
  by (simp add: SharedMemory_set_def SharedMemory_get_def SharedMemory_new_def)

section \<open>The tool \<^verbatim>\<open>access_memory\<close>\<close>

lemma SharedMemory_get_absent:
  "key \<notin> fst ` set (data m) \<Longrightarrow> SharedMemory_get key m = Undefined"
  by (simp add: SharedMemory_get_def map_of_eq_None_iff[THEN iffD2])

lemma SharedMemory_get_set: "SharedMemory_get key (SharedMemory_set key v m) = v"
  by (simp add: SharedMemory_get_def SharedMemory_set_def update_conv')

text \<open>
  Claim C9. A read returns the \<open>not found\<close> message whenever what \<^verbatim>\<open>get\<close> gives for the key is
  falsy, which is so when the key is absent, when \<^verbatim>\<open>undefined\<close> is stored and when the empty
  string is stored; otherwise it returns the message with the stored value. In particular a
  read of a key after a write of the empty string (or of no value) under it returns
  \<open>not found\<close>. A read does not change the shared memory.
\<close>

theorem memoryTool_read_not_found:
  \<open>(\<not> truthy (SharedMemory_get key m) \<longrightarrow>
      fst (memoryTool_execute ''read'' key v m) =
        Str (''Memory value for "'' @ key @ ''": not found''))
   \<and> (truthy (SharedMemory_get key m) \<longrightarrow>
      fst (memoryTool_execute ''read'' key v m) =
        Str (''Memory value for "'' @ key @ ''": '' @ to_string (SharedMemory_get key m)))
   \<and> (key \<notin> fst ` set (data m) \<longrightarrow> \<not> truthy (SharedMemory_get key m))
   \<and> (map_of (data m) key = Some Undefined \<or> map_of (data m) key = Some (Str '''') \<longrightarrow>
        \<not> truthy (SharedMemory_get key m))
   \<and> fst (memoryTool_execute ''read'' key v
          (snd (memoryTool_execute ''write'' key (Str '''') m))) =
        Str (''Memory value for "'' @ key @ ''": not found'')
   \<and> fst (memoryTool_execute ''read'' key v
          (snd (memoryTool_execute ''write'' key Undefined m))) =
        Str (''Memory value for "'' @ key @ ''": not found'')
   \<and> snd (memoryTool_execute ''read'' key v m) = m\<close>
  by (auto simp add: memoryTool_execute_def js_or_def truthy_def to_string_def
      SharedMemory_get_set SharedMemory_get_absent)
     (simp_all add: SharedMemory_get_def)

text \<open>A new shared memory, and the same after the empty string is written under \<open>k\<close>.\<close>

theorem memoryTool_read_not_found_witness:
  \<open>''k'' \<notin> fst ` set (data (SharedMemory_new :: unit sharedMemory))
   \<and> \<not> truthy (SharedMemory_get ''k'' (SharedMemory_new :: unit sharedMemory))
   \<and> fst (memoryTool_execute ''read'' ''k'' Undefined (SharedMemory_new :: unit sharedMemory)) =
       Str ''Memory value for "k": not found''
   \<and> map_of (data (snd (memoryTool_execute ''write'' ''k'' (Str '''')
         (SharedMemory_new :: unit sharedMemory)))) ''k'' = Some (Str '''')
   \<and> fst (memoryTool_execute ''read'' ''k'' Undefined
         (snd (memoryTool_execute ''write'' ''k'' (Str '''')
            (SharedMemory_new :: unit sharedMemory)))) =
       Str ''Memory value for "k": not found''
   \<and> truthy (SharedMemory_get ''k'' (snd (memoryTool_execute ''write'' ''k'' (Str ''v'')
         (SharedMemory_new :: unit sharedMemory))))
   \<and> fst (memoryTool_execute ''read'' ''k'' Undefined
         (snd (memoryTool_execute ''write'' ''k'' (Str ''v'')
            (SharedMemory_new :: unit sharedMemory)))) =
       Str ''Memory value for "k": v''\<close>
  using memoryTool_read_not_found
      [where key = "''k''" and v = Undefined and m = "SharedMemory_new :: unit sharedMemory"]
    memoryTool_read_not_found
      [where key = "''k''" and v = Undefined
         and m = "snd (memoryTool_execute ''write'' ''k'' (Str '''')
                    (SharedMemory_new :: unit sharedMemory))"]
    memoryTool_read_not_found
      [where key = "''k''" and v = Undefined
         and m = "snd (memoryTool_execute ''write'' ''k'' (Str ''v'')
                    (SharedMemory_new :: unit sharedMemory))"]
  by (simp add: memoryTool_execute_def SharedMemory_new_def SharedMemory_set_def
      SharedMemory_get_def truthy_def to_string_def js_or_def)

section \<open>The tool \<^verbatim>\<open>communicate_with_agent\<close>\<close>

text \<open>What the tool does on a name that no lookup finds, and when it changes the history.\<close>

lemma communicateTool_missing:
  \<open>get_property agents (toLowerCase targetAgent) = Missing \<Longrightarrow>
   communicateTool_execute sdk targetAgent msg m agents now w =
     (Inr (''Error: Agent "'' @ targetAgent @ ''" not found''), m, w)\<close>
  by (simp add: communicateTool_execute_def)

lemma communicateTool_history:
  "conversationHistory (fst (snd (communicateTool_execute sdk targetAgent msg m agents now w)))
     = conversationHistory m
   \<or> (\<exists>target r w'. map_of agents (toLowerCase targetAgent) = Some target
        \<and> sdk target msg w = (Inr r, w')
        \<and> communicateTool_execute sdk targetAgent msg m agents now w =
            (Inr (''Response from '' @ targetAgent @ '': '' @ r),
             SharedMemory_addToHistory targetAgent \<lparr>sent = msg, response = r\<rparr> now m, w'))"
  by (auto simp add: communicateTool_execute_def get_property_def
      split: property.splits option.splits prod.splits sum.splits if_splits)

lemma inherited_lower:
  "toLowerCase ''constructor'' = ''constructor''" "toLowerCase ''__proto__'' = ''__proto__''"
  by (simp_all add: string_eval)

text \<open>
  Claim C10, at the targets \<open>constructor\<close> and \<open>__proto__\<close>. Their lowercased forms are not
  keys of the agent maps of \<^verbatim>\<open>AdvancedMultiAgentSystem\<close> and \<^verbatim>\<open>AgentCommunicationExample\<close>, but
  \<^verbatim>\<open>agents["constructor"]\<close> is the inherited \<^verbatim>\<open>Object.prototype.constructor\<close>, which is truthy:
  the guard \<^verbatim>\<open>if (!target)\<close> is passed, \<^verbatim>\<open>target.run(message)\<close> throws, and the tool returns no
  error string. The shared memory, and so the conversation history, is as before.
\<close>

theorem communicateTool_inherited_key_throws:
  \<open>toLowerCase ''constructor'' \<notin> fst ` set AdvancedMultiAgentSystem_agents
   \<and> toLowerCase ''constructor'' \<notin> fst ` set AgentCommunicationExample_agents
   \<and> toLowerCase ''__proto__'' \<notin> fst ` set AdvancedMultiAgentSystem_agents
   \<and> communicateTool_execute sdk ''constructor'' msg m AdvancedMultiAgentSystem_agents now w =
       (Inl (Error ''target.run is not a function''), m, w)
   \<and> communicateTool_execute sdk ''constructor'' msg m AgentCommunicationExample_agents now w =
       (Inl (Error ''target.run is not a function''), m, w)
   \<and> communicateTool_execute sdk ''__proto__'' msg m AdvancedMultiAgentSystem_agents now w =
       (Inl (Error ''target.run is not a function''), m, w)
   \<and> fst (communicateTool_execute sdk ''constructor'' msg m AdvancedMultiAgentSystem_agents now w)
       \<noteq> Inr ''Error: Agent "constructor" not found''\<close>
  by (simp add: communicateTool_execute_def get_property_def AdvancedMultiAgentSystem_agents_def
      AgentCommunicationExample_agents_def objectPrototype_keys_def inherited_lower)

text \<open>A name that is nowhere, \<open>Nobody\<close>, and a name of an agent, \<open>Writer\<close>: the error string
  with the history as before, and the response with one entry added.\<close>

lemma communicateTool_examples:
  \<open>communicateTool_execute sdk ''Nobody'' msg m AdvancedMultiAgentSystem_agents now w =
     (Inr ''Error: Agent "Nobody" not found'', m, w)\<close>
  \<open>communicateTool_execute (\<lambda>a t (n::nat). (Inr ''ok'', Suc n)) ''Writer'' ''hi'' SharedMemory_new
       AdvancedMultiAgentSystem_agents ''t0'' 0 =
     (Inr ''Response from Writer: ok'',
      \<lparr>data = [], conversationHistory =
         [\<lparr>entry_agent = ''Writer'', entry_message = \<lparr>sent = ''hi'', response = ''ok''\<rparr>,
           entry_timestamp = ''t0''\<rparr>]\<rparr>,
      1)\<close>
  by (simp_all add: communicateTool_execute_def get_property_def
      AdvancedMultiAgentSystem_agents_def objectPrototype_keys_def string_eval
      SharedMemory_addToHistory_def SharedMemory_new_def)

end
